theory Spec2Isabelle
  imports Complex_Main
begin

section \<open>Route guard\<close>

text \<open>
  What a route component renders: either a redirect (\<open><Navigate to=... replace />\<close>)
  or the child routes (\<open><Outlet />\<close>).
\<close>

datatype element = Navigate string bool | Outlet

text \<open>
  \<open>frontend/src/components/shared/ProtectedRoute.tsx\<close>: reads \<open>isAuthenticated\<close> from
  the auth store; redirects to \<open>/login\<close> when it is false, renders the child routes
  otherwise.
\<close>

definition ProtectedRoute :: "bool \<Rightarrow> element" where
  "ProtectedRoute isAuthenticated =
     (if \<not> isAuthenticated then Navigate ''/login'' True else Outlet)"

text \<open>
  The second \<open>ProtectedRoute\<close> (\<open>unnamed/part_002\<close>): it does not read the auth store
  (comment: skip authentication, allow direct access) and always renders the child routes.
\<close>

definition ProtectedRoute_open :: "bool \<Rightarrow> element" where
  "ProtectedRoute_open isAuthenticated = Outlet"

section \<open>Runway and scenarios\<close>

text \<open>
  The financial record of the data model: a dated snapshot of revenue, expenses and cash
  balance. Amounts are idealised as real numbers.
\<close>

record financial_record =
  fr_revenue :: real
  fr_expenses :: real
  fr_cash_balance :: real

text \<open>
  Modelled from the spec: the backend's burn-rate computation is not among the sources;
  the specification gives burn_rate = expenses - revenue for the latest period.
\<close>

definition burn_rate :: "financial_record \<Rightarrow> real" where
  "burn_rate r = fr_expenses r - fr_revenue r"

text \<open>
  Modelled from the spec: the backend's runway computation is not among the sources;
  the specification gives runway = cash_balance / max(burn_rate, epsilon). The value of
  epsilon is not given, so it is a parameter.
\<close>

definition runway :: "real \<Rightarrow> financial_record \<Rightarrow> real" where
  "runway epsilon r = fr_cash_balance r / max (burn_rate r) epsilon"

text \<open>
  A scenario of the data model: a what-if delta (expense change, revenue change, one-time
  cash injection).
\<close>

record scenario =
  expense_change :: real
  revenue_change :: real
  one_time_cash :: real

text \<open>
  Modelled from the spec: the backend's scenario projection is not among the sources; the
  specification recomputes the runway with the expense and revenue baselines shifted by
  the scenario's stored deltas (and the one-time cash added to the balance).
\<close>

definition apply_scenario :: "financial_record \<Rightarrow> scenario \<Rightarrow> financial_record" where
  "apply_scenario r s =
     \<lparr> fr_revenue = fr_revenue r + revenue_change s,
       fr_expenses = fr_expenses r + expense_change s,
       fr_cash_balance = fr_cash_balance r + one_time_cash s \<rparr>"

definition projected_runway :: "real \<Rightarrow> financial_record \<Rightarrow> scenario \<Rightarrow> real" where
  "projected_runway epsilon r s = runway epsilon (apply_scenario r s)"

section \<open>Dashboard analytics\<close>

text \<open>
  One point of the cash-flow series the dashboard receives
  (\<open>pages/dashboard/DashboardPage.tsx\<close>): \<open>balance\<close> is always present, \<open>income\<close>
  and \<open>expenses\<close> may be missing (\<open>undefined\<close>, here \<open>None\<close>). Finite JavaScript
  numbers are idealised as real numbers.
\<close>

record cash_flow_point =
  balance :: real
  income :: "real option"
  expenses :: "real option"

text \<open>JavaScript truthiness of an optional number: \<open>undefined\<close> and \<open>0\<close> are falsy.\<close>

definition truthy :: "real option \<Rightarrow> bool" where
  "truthy v = (case v of None \<Rightarrow> False | Some x \<Rightarrow> x \<noteq> 0)"

text \<open>The expression \<open>v || 0\<close>.\<close>

definition or_zero :: "real option \<Rightarrow> real" where
  "or_zero v = (case v of None \<Rightarrow> 0 | Some x \<Rightarrow> if x \<noteq> 0 then x else 0)"

text \<open>
  Division of JavaScript numbers: a zero divisor gives no finite number (\<open>Infinity\<close> or
  \<open>NaN\<close>), which is \<open>None\<close> here; otherwise the quotient.
\<close>

definition js_div :: "real \<Rightarrow> real \<Rightarrow> real option" where
  "js_div a b = (if b = 0 then None else Some (a / b))"

text \<open>The expression \<open>(a / b) * 100\<close>.\<close>

definition percent_of :: "real \<Rightarrow> real \<Rightarrow> real option" where
  "percent_of a b = map_option (\<lambda>q. q * 100) (js_div a b)"

text \<open>\<open>cashFlow[cashFlow.length - 1]\<close>: \<open>undefined\<close> for the empty series.\<close>

definition latestMonth :: "cash_flow_point list \<Rightarrow> cash_flow_point option" where
  "latestMonth cashFlow =
     (if cashFlow = [] then None else Some (cashFlow ! (length cashFlow - 1)))"

text \<open>\<open>cashFlow.length > 1 ? cashFlow[cashFlow.length - 2] : null\<close>.\<close>

definition previousMonth :: "cash_flow_point list \<Rightarrow> cash_flow_point option" where
  "previousMonth cashFlow =
     (if length cashFlow > 1 then Some (cashFlow ! (length cashFlow - 2)) else None)"

text \<open>
  \<open>revenueGrowth\<close>: the guard \<open>previousMonth && previousMonth.income && latestMonth?.income\<close>
  is the chain of cases; every failing case gives 0.
\<close>

definition revenueGrowth :: "cash_flow_point list \<Rightarrow> real option" where
  "revenueGrowth cashFlow =
     (case previousMonth cashFlow of
        None \<Rightarrow> Some 0
      | Some p \<Rightarrow>
          (case income p of
             None \<Rightarrow> Some 0
           | Some pinc \<Rightarrow>
               if pinc = 0 then Some 0
               else (case Option.bind (latestMonth cashFlow) income of
                       None \<Rightarrow> Some 0
                     | Some linc \<Rightarrow>
                         if linc = 0 then Some 0 else percent_of (linc - pinc) pinc)))"

text \<open>\<open>expenseChange\<close>: the same shape on the \<open>expenses\<close> field.\<close>

definition expenseChange :: "cash_flow_point list \<Rightarrow> real option" where
  "expenseChange cashFlow =
     (case previousMonth cashFlow of
        None \<Rightarrow> Some 0
      | Some p \<Rightarrow>
          (case expenses p of
             None \<Rightarrow> Some 0
           | Some pe \<Rightarrow>
               if pe = 0 then Some 0
               else (case Option.bind (latestMonth cashFlow) expenses of
                       None \<Rightarrow> Some 0
                     | Some le \<Rightarrow>
                         if le = 0 then Some 0 else percent_of (le - pe) pe)))"

text \<open>
  \<open>latestBurn = latestMonth ? (latestMonth.expenses || 0) - (latestMonth.income || 0) : 0\<close>.
\<close>

definition latestBurn :: "cash_flow_point list \<Rightarrow> real" where
  "latestBurn cashFlow =
     (case latestMonth cashFlow of
        None \<Rightarrow> 0
      | Some m \<Rightarrow> or_zero (expenses m) - or_zero (income m))"

definition previousBurn :: "cash_flow_point list \<Rightarrow> real" where
  "previousBurn cashFlow =
     (case previousMonth cashFlow of
        None \<Rightarrow> 0
      | Some m \<Rightarrow> or_zero (expenses m) - or_zero (income m))"

text \<open>
  \<open>burnChange = previousBurn !== 0
     ? ((latestBurn - previousBurn) / Math.abs(previousBurn)) * 100 : 0\<close>.
\<close>

definition burnChange :: "cash_flow_point list \<Rightarrow> real option" where
  "burnChange cashFlow =
     (if previousBurn cashFlow \<noteq> 0
      then percent_of (latestBurn cashFlow - previousBurn cashFlow) \<bar>previousBurn cashFlow\<bar>
      else Some 0)"

section \<open>CFO chat store\<close>

text \<open>\<open>stores/cfo.store.ts\<close>: the chat messages and the store's state.\<close>

datatype role = RoleUser | RoleAi

record ChatMessage =
  msg_role :: role
  msg_text :: string

record CfoState =
  chatHistory :: "ChatMessage list"
  monthlyReport :: "string option"
  isProcessingChat :: bool
  isGeneratingReport :: bool

text \<open>
  The body and the authorization header of the request \<open>POST /api/v1/ai/chat\<close>.
\<close>

record chat_request =
  message :: string
  context_months :: nat
  authorization :: string

text \<open>
  \<open>axios.post\<close>: the backend answers a request with the response text (\<open>Inr\<close>) or the
  call throws (\<open>Inl\<close>); every call is appended to the list of requests issued.
\<close>

definition axios_post ::
  "(chat_request \<Rightarrow> 'e + string) \<Rightarrow> chat_request \<Rightarrow> chat_request list
     \<Rightarrow> ('e + string) \<times> chat_request list" where
  "axios_post backend req issued = (backend req, issued @ [req])"

definition chat_fallback :: string where
  "chat_fallback = ''Error connecting to the financial engine. Please try again.''"

text \<open>
  \<open>sendUserMessage\<close>: the user's entry is appended and the typing indicator set; the
  request is posted once with the token of the auth store; the \<open>try\<close> branch appends the
  response, the \<open>catch\<close> branch the fallback; \<open>finally\<close> clears the indicator.
\<close>

definition sendUserMessage ::
  "(chat_request \<Rightarrow> 'e + string) \<Rightarrow> string \<Rightarrow> string \<Rightarrow> CfoState \<times> chat_request list
     \<Rightarrow> CfoState \<times> chat_request list" where
  "sendUserMessage backend token txt w =
     (let (state, issued) = w;
          state1 = state\<lparr> chatHistory := chatHistory state @ [\<lparr> msg_role = RoleUser, msg_text = txt \<rparr>],
                         isProcessingChat := True \<rparr>;
          (res, issued1) = axios_post backend
                          \<lparr> message = txt, context_months = 12,
                            authorization = ''Bearer '' @ token \<rparr> issued;
          state2 = (case res of
                      Inr response \<Rightarrow>
                        state1\<lparr> chatHistory := chatHistory state1
                                   @ [\<lparr> msg_role = RoleAi, msg_text = response \<rparr>] \<rparr>
                    | Inl err \<Rightarrow>
                        state1\<lparr> chatHistory := chatHistory state1
                                   @ [\<lparr> msg_role = RoleAi, msg_text = chat_fallback \<rparr>] \<rparr>)
      in (state2\<lparr> isProcessingChat := False \<rparr>, issued1))"

section \<open>Login and registration pages\<close>

text \<open>The user record handed to the auth store.\<close>

record User =
  user_id :: string
  user_email :: string
  fullName :: string
  onboardingCompleted :: bool

text \<open>
  A thrown value: an instance of \<open>Error\<close> with its message, or anything else.
\<close>

datatype thrown = Error string | NonError

text \<open>
  The state a login or registration page works on: its two \<open>useState\<close> cells, the field
  errors of the form (\<open>formState.errors\<close>, field name and message), the navigations
  performed, the auth store, and the calls made to the authentication service (the
  arguments of each).
\<close>

record 'a auth_page =
  isSubmitting :: bool
  errorMessage :: "string option"
  errors :: "(string \<times> string) list"
  navigated :: "string list"
  auth :: 'a
  serviceCalls :: "string list list"

record LoginFormData =
  login_email :: string
  login_password :: string

text \<open>
  \<open>LoginPage.onSubmit\<close>. The service \<open>login\<close> and the store action \<open>loginUser\<close> are
  imported from modules outside the sources and are parameters.
\<close>

definition LoginPage_onSubmit ::
  "(string \<Rightarrow> string \<Rightarrow> thrown + User \<times> string) \<Rightarrow> (User \<Rightarrow> string \<Rightarrow> 'a \<Rightarrow> 'a)
     \<Rightarrow> LoginFormData \<Rightarrow> 'a auth_page \<Rightarrow> 'a auth_page" where
  "LoginPage_onSubmit login loginUser data st =
     (let st1 = st\<lparr> isSubmitting := True, errorMessage := None \<rparr>;
          st2 = st1\<lparr> serviceCalls := serviceCalls st1 @ [[login_email data, login_password data]] \<rparr>;
          st3 = (case login (login_email data) (login_password data) of
                   Inr (user, token) \<Rightarrow>
                     (let st' = st2\<lparr> auth := loginUser user token (auth st2) \<rparr>
                      in if onboardingCompleted user
                         then st'\<lparr> navigated := navigated st' @ [''/dashboard''] \<rparr>
                         else st'\<lparr> navigated := navigated st' @ [''/onboarding''] \<rparr>)
                 | Inl error \<Rightarrow>
                     (case error of
                        Error msg \<Rightarrow>
                          st2\<lparr> errorMessage :=
                                 Some (if msg \<noteq> [] then msg
                                       else ''Login failed. Please check your credentials.'') \<rparr>
                      | NonError \<Rightarrow>
                          st2\<lparr> errorMessage := Some ''Login failed. Please try again.'' \<rparr>))
      in st3\<lparr> isSubmitting := False \<rparr>)"

record RegisterFormData =
  reg_fullName :: string
  reg_email :: string
  reg_password :: string

text \<open>
  \<open>registerSchema\<close>: the issues the schema reports for a form input, in field order.
  \<open>z.string().email\<close> is the library's test of an email address and is the parameter
  \<open>is_email\<close>; \<open>min n\<close> compares the length of the string.
\<close>

definition registerSchema :: "(string \<Rightarrow> bool) \<Rightarrow> RegisterFormData \<Rightarrow> (string \<times> string) list" where
  "registerSchema is_email data =
     (if length (reg_fullName data) < 2
      then [(''fullName'', ''Name must be at least 2 characters'')] else [])
     @ (if \<not> is_email (reg_email data)
        then [(''email'', ''Invalid email address'')] else [])
     @ (if length (reg_password data) < 8
        then [(''password'', ''Password must be at least 8 characters'')] else [])"

text \<open>
  \<open>handleSubmit\<close> of the form library with a resolver: the input is validated first; the
  submit handler runs only when the resolver reports no issue, otherwise the issues
  become the field errors of the form.
\<close>

definition handleSubmit ::
  "('d \<Rightarrow> (string \<times> string) list) \<Rightarrow> ('d \<Rightarrow> 'a auth_page \<Rightarrow> 'a auth_page)
     \<Rightarrow> 'd \<Rightarrow> 'a auth_page \<Rightarrow> 'a auth_page" where
  "handleSubmit resolver onValid data st =
     (let issues = resolver data
      in if issues = [] then onValid data (st\<lparr> errors := [] \<rparr>)
         else st\<lparr> errors := issues \<rparr>)"

text \<open>
  \<open>RegisterPage.onSubmit\<close>. The service \<open>registerService\<close> and the store action
  \<open>loginUser\<close> are parameters, as for the login page.
\<close>

definition RegisterPage_onSubmit ::
  "(string \<Rightarrow> string \<Rightarrow> string \<Rightarrow> thrown + User \<times> string) \<Rightarrow> (User \<Rightarrow> string \<Rightarrow> 'a \<Rightarrow> 'a)
     \<Rightarrow> RegisterFormData \<Rightarrow> 'a auth_page \<Rightarrow> 'a auth_page" where
  "RegisterPage_onSubmit registerService loginUser data st =
     (let st1 = st\<lparr> isSubmitting := True, errorMessage := None \<rparr>;
          st2 = st1\<lparr> serviceCalls := serviceCalls st1
                        @ [[reg_fullName data, reg_email data, reg_password data]] \<rparr>;
          st3 = (case registerService (reg_fullName data) (reg_email data) (reg_password data) of
                   Inr (user, token) \<Rightarrow>
                     (let st' = st2\<lparr> auth := loginUser user token (auth st2) \<rparr>
                      in st'\<lparr> navigated := navigated st' @ [''/onboarding''] \<rparr>)
                 | Inl error \<Rightarrow>
                     (case error of
                        Error msg \<Rightarrow>
                          st2\<lparr> errorMessage :=
                                 Some (if msg \<noteq> [] then msg
                                       else ''Registration failed. Please try again.'') \<rparr>
                      | NonError \<Rightarrow>
                          st2\<lparr> errorMessage := Some ''Registration failed. Please try again.'' \<rparr>))
      in st3\<lparr> isSubmitting := False \<rparr>)"

text \<open>The form of the registration page: \<open>handleSubmit(onSubmit)\<close> with the schema's resolver.\<close>

definition RegisterPage_submit ::
  "(string \<Rightarrow> bool) \<Rightarrow> (string \<Rightarrow> string \<Rightarrow> string \<Rightarrow> thrown + User \<times> string)
     \<Rightarrow> (User \<Rightarrow> string \<Rightarrow> 'a \<Rightarrow> 'a) \<Rightarrow> RegisterFormData \<Rightarrow> 'a auth_page \<Rightarrow> 'a auth_page" where
  "RegisterPage_submit is_email registerService loginUser =
     handleSubmit (registerSchema is_email) (RegisterPage_onSubmit registerService loginUser)"

section \<open>The investor directory\<close>

text \<open>
  \<open>InvestorMatch\<close> of the investor service (\<open>unnamed/part_003\<close>). The directory
  stores and passes these records on as received; no arithmetic is done on
  \<open>match_score\<close> here.
\<close>

record InvestorMatch =
  investor_id :: int
  name :: string
  match_score :: real
  website :: string
  hq :: string
  inv_type :: string

text \<open>
  What \<open>fetch\<close> gives: the promise rejects with a thrown value, or it resolves to a
  response with its \<open>ok\<close> flag, its status code and its JSON body.
\<close>

record 'b response =
  ok :: bool
  status :: nat
  json :: 'b

datatype 'b fetched = Rejected thrown | Response "'b response"

text \<open>
  \<open>Number.prototype.toString\<close> on a non-negative integer: its decimal digits.
\<close>

definition digit_char :: "nat \<Rightarrow> char" where
  "digit_char d = ''0123456789'' ! (d mod 10)"

function nat_to_string :: "nat \<Rightarrow> string" where
  "nat_to_string n =
     (if n < 10 then [digit_char n] else nat_to_string (n div 10) @ [digit_char (n mod 10)])"
  by pat_completeness auto
termination
  by (relation "measure (\<lambda>n. n)") auto

declare nat_to_string.simps [simp del]

text \<open>
  The investor directory (\<open>pages/dashboard/InvestorDirectoryPage.tsx\<close>): the page size,
  the request of the list endpoint (path and query parameters) and its body.
\<close>

definition LIMIT :: nat where
  "LIMIT = 50"

type_synonym directory_request = "string \<times> (string \<times> string) list"

record directory_body =
  body_investors :: "InvestorMatch list"
  body_total :: nat

text \<open>
  \<open>fetchFilteredInvestors\<close> (\<open>unnamed/part_003\<close>): builds the query parameters, issues
  the request (appended to the list of requests issued), throws when the response is
  not \<open>ok\<close>, and returns the investors and the total of the body. A request is the
  path and the query parameters; the base URL of the environment is left out.
\<close>

definition fetchFilteredInvestors ::
  "(directory_request \<Rightarrow> directory_body fetched) \<Rightarrow> string \<Rightarrow> string \<Rightarrow> string \<Rightarrow> nat
     \<Rightarrow> directory_request list
     \<Rightarrow> (thrown + InvestorMatch list \<times> nat) \<times> directory_request list" where
  "fetchFilteredInvestors backend stg hqs sortBy skp issued =
     (let params = [(''stage'', stg), (''hq'', hqs), (''sort_by'', sortBy),
                    (''limit'', ''50''), (''skip'', nat_to_string skp)];
          req = (''/api/v1/ai/match/all'', params)
      in (case backend req of
            Rejected error \<Rightarrow> Inl error
          | Response r \<Rightarrow>
              if \<not> ok r then Inl (Error ''Failed to fetch filtered investors'')
              else Inr (body_investors (json r), body_total (json r)),
          issued @ [req]))"

record directory_page =
  investors :: "InvestorMatch list"
  loading :: bool
  loadingMore :: bool
  totalCount :: nat
  stageFilter :: string
  hqFilter :: string
  sortBy :: string
  skip :: nat

text \<open>
  \<open>loadInvestors\<close>, the effect that runs whenever a filter or \<open>skip\<close> changes.
\<close>

definition loadInvestors ::
  "(directory_request \<Rightarrow> directory_body fetched) \<Rightarrow> directory_page \<times> directory_request list
     \<Rightarrow> directory_page \<times> directory_request list" where
  "loadInvestors backend w =
     (let (st, issued) = w;
          st1 = (if skip st = 0 then st\<lparr> loading := True \<rparr> else st\<lparr> loadingMore := True \<rparr>);
          (res, issued1) = fetchFilteredInvestors backend (stageFilter st) (hqFilter st)
                             (sortBy st) (skip st) issued;
          st2 = (case res of
                   Inr (page, count) \<Rightarrow>
                     (if skip st = 0 then st1\<lparr> investors := page \<rparr>
                      else st1\<lparr> investors := investors st1 @ page \<rparr>)
                     \<lparr> totalCount := count \<rparr>
                 | Inl error \<Rightarrow> st1)
      in (st2\<lparr> loading := False, loadingMore := False \<rparr>, issued1))"

text \<open>
  The click on "Load More Investors": \<open>setSkip(prev => prev + LIMIT)\<close>; the change of
  \<open>skip\<close> then runs the effect.
\<close>

definition clickLoadMore :: "directory_page \<Rightarrow> directory_page" where
  "clickLoadMore st = st\<lparr> skip := skip st + LIMIT \<rparr>"

definition loadMore ::
  "(directory_request \<Rightarrow> directory_body fetched) \<Rightarrow> directory_page \<times> directory_request list
     \<Rightarrow> directory_page \<times> directory_request list" where
  "loadMore backend w = loadInvestors backend (clickLoadMore (fst w), snd w)"

section \<open>Theorems\<close>

subsection \<open>Runway of the example record\<close>

text \<open>
  C1. For the record with expenses 50000, revenue 22000 and cash balance 142000 the burn
  rate is 28000 and the runway is 142000 / 28000, which is 5.07 to two decimals, for
  every epsilon that does not exceed the burn rate.
\<close>

theorem runway_example:
  assumes "epsilon \<le> 28000"
  shows "burn_rate \<lparr> fr_revenue = 22000, fr_expenses = 50000, fr_cash_balance = 142000 \<rparr> = 28000
       \<and> runway epsilon \<lparr> fr_revenue = 22000, fr_expenses = 50000, fr_cash_balance = 142000 \<rparr>
           = 142000 / 28000
       \<and> \<bar>runway epsilon \<lparr> fr_revenue = 22000, fr_expenses = 50000, fr_cash_balance = 142000 \<rparr>
            - 5.07\<bar> < 0.005"
  using assms by (simp add: runway_def burn_rate_def max_def)

theorem runway_example_witness:
  "(1::real) \<le> 28000
   \<and> runway 1 \<lparr> fr_revenue = 22000, fr_expenses = 50000, fr_cash_balance = 142000 \<rparr>
       = 142000 / 28000
   \<and> \<bar>runway 1 \<lparr> fr_revenue = 22000, fr_expenses = 50000, fr_cash_balance = 142000 \<rparr>
        - 5.07\<bar> < 0.005"
  using runway_example [of 1] by simp

subsection \<open>Scenario with a higher expense baseline\<close>

text \<open>
  C3, as stated, fails: for a record whose revenue exceeds its expenses by more than the
  added 25000 the burn rate stays below epsilon before and after, and for a record with no
  cash the runway is 0 before and after; the projected runway is then not smaller.
\<close>

theorem expense_scenario_counterexample:
  "\<not> projected_runway 1 \<lparr> fr_revenue = 100000, fr_expenses = 50000, fr_cash_balance = 142000 \<rparr>
        \<lparr> expense_change = 25000, revenue_change = 0, one_time_cash = 0 \<rparr>
      < runway 1 \<lparr> fr_revenue = 100000, fr_expenses = 50000, fr_cash_balance = 142000 \<rparr>"
  by (simp add: projected_runway_def apply_scenario_def runway_def burn_rate_def)

text \<open>
  C3, amended. For a positive epsilon and a baseline record with a positive cash balance
  whose burn rate, once raised by 25000, exceeds epsilon, the scenario with expense change
  +25000 (revenue and cash unchanged) has a strictly smaller projected runway.
\<close>

theorem expense_scenario_decreases_runway:
  assumes "0 < epsilon" and "0 < fr_cash_balance r" and "epsilon < burn_rate r + 25000"
  shows "projected_runway epsilon r \<lparr> expense_change = 25000, revenue_change = 0, one_time_cash = 0 \<rparr>
         < runway epsilon r"
proof -
  let ?s = "\<lparr> expense_change = 25000, revenue_change = 0, one_time_cash = 0 \<rparr>"
  have burn: "burn_rate (apply_scenario r ?s) = burn_rate r + 25000"
    by (simp add: apply_scenario_def burn_rate_def)
  have cash: "fr_cash_balance (apply_scenario r ?s) = fr_cash_balance r"
    by (simp add: apply_scenario_def)
  have pos: "0 < max (burn_rate r) epsilon"
    using assms(1) by (simp add: max_def)
  have less: "max (burn_rate r) epsilon < max (burn_rate r + 25000) epsilon"
    using assms(3) by (simp add: max_def)
  have "fr_cash_balance r / max (burn_rate r + 25000) epsilon
        < fr_cash_balance r / max (burn_rate r) epsilon"
  proof (rule divide_strict_left_mono [OF less assms(2)])
    from pos less show "0 < max (burn_rate r + 25000) epsilon * max (burn_rate r) epsilon"
      by (intro mult_pos_pos) linarith+
  qed
  then show ?thesis
    by (simp add: projected_runway_def runway_def burn cash)
qed

theorem expense_scenario_decreases_runway_witness:
  "projected_runway 1 \<lparr> fr_revenue = 22000, fr_expenses = 50000, fr_cash_balance = 142000 \<rparr>
       \<lparr> expense_change = 25000, revenue_change = 0, one_time_cash = 0 \<rparr>
   < runway 1 \<lparr> fr_revenue = 22000, fr_expenses = 50000, fr_cash_balance = 142000 \<rparr>"
  using expense_scenario_decreases_runway
    [of 1 "\<lparr> fr_revenue = 22000, fr_expenses = 50000, fr_cash_balance = 142000 \<rparr>"]
  by (simp add: burn_rate_def)

subsection \<open>The two route guards\<close>

text \<open>
  C8, as stated, fails: for an unauthenticated visitor the guard of
  \<open>components/shared\<close> redirects to \<open>/login\<close>, the other one renders the child routes.
\<close>

theorem ProtectedRoute_equiv_counterexample:
  "ProtectedRoute False \<noteq> ProtectedRoute_open False"
  by (simp add: ProtectedRoute_def ProtectedRoute_open_def)

text \<open>
  C8, amended. The two guards render the same result exactly for an authenticated
  visitor (the child routes); for an unauthenticated visitor the first redirects to
  \<open>/login\<close> with \<open>replace\<close>, the second still renders the child routes.
\<close>

theorem ProtectedRoute_equiv_iff:
  "(ProtectedRoute isAuthenticated = ProtectedRoute_open isAuthenticated) = isAuthenticated
   \<and> ProtectedRoute True = Outlet
   \<and> ProtectedRoute False = Navigate ''/login'' True
   \<and> ProtectedRoute_open isAuthenticated = Outlet"
  by (simp add: ProtectedRoute_def ProtectedRoute_open_def)

subsection \<open>Burn rate of the latest period\<close>

lemma latestMonth_last: "cashFlow \<noteq> [] \<Longrightarrow> latestMonth cashFlow = Some (last cashFlow)"
  by (simp add: latestMonth_def last_conv_nth)

text \<open>
  C2. For every cash-flow series with a latest period, the burn rate of the dashboard is
  the expenses of the latest period minus its income (a missing amount counting as 0);
  when both amounts are present it is exactly their difference.
\<close>

theorem latestBurn_is_expenses_minus_income:
  assumes "cashFlow \<noteq> []"
  shows "latestBurn cashFlow
           = or_zero (expenses (last cashFlow)) - or_zero (income (last cashFlow))
       \<and> (\<forall>e i. expenses (last cashFlow) = Some e \<and> income (last cashFlow) = Some i
              \<longrightarrow> latestBurn cashFlow = e - i)"
  using assms by (simp add: latestBurn_def latestMonth_last or_zero_def)

theorem latestBurn_is_expenses_minus_income_witness:
  "latestBurn [\<lparr> balance = 170000, income = Some 18000, expenses = Some 48000 \<rparr>,
               \<lparr> balance = 142000, income = Some 22000, expenses = Some 50000 \<rparr>] = 50000 - 22000"
  using latestBurn_is_expenses_minus_income
    [of "[\<lparr> balance = 170000, income = Some 18000, expenses = Some 48000 \<rparr>,
          \<lparr> balance = 142000, income = Some 22000, expenses = Some 50000 \<rparr>]"]
  by simp

subsection \<open>Month-over-month percentages\<close>

lemma percent_of_defined: "b \<noteq> 0 \<Longrightarrow> \<exists>y. percent_of a b = Some y"
  by (simp add: percent_of_def js_div_def)

lemma revenueGrowth_defined: "revenueGrowth cashFlow \<noteq> None"
  by (simp add: revenueGrowth_def percent_of_defined split: option.split)

lemma expenseChange_defined: "expenseChange cashFlow \<noteq> None"
  by (simp add: expenseChange_def percent_of_defined split: option.split)

lemma burnChange_defined: "burnChange cashFlow \<noteq> None"
  by (simp add: burnChange_def percent_of_defined)

text \<open>
  C9. None of the three percentages divides by zero: each is a finite number for every
  series, and each is 0 when the previous month is absent or when its denominator (the
  previous income, the previous expenses, the previous burn) is zero or missing.
\<close>

theorem percentages_never_divide_by_zero:
  "revenueGrowth cashFlow \<noteq> None \<and> expenseChange cashFlow \<noteq> None
   \<and> burnChange cashFlow \<noteq> None
   \<and> (previousMonth cashFlow = None \<longrightarrow>
        revenueGrowth cashFlow = Some 0 \<and> expenseChange cashFlow = Some 0
        \<and> burnChange cashFlow = Some 0)
   \<and> (\<forall>p. previousMonth cashFlow = Some p \<and> \<not> truthy (income p)
          \<longrightarrow> revenueGrowth cashFlow = Some 0)
   \<and> (\<forall>p. previousMonth cashFlow = Some p \<and> \<not> truthy (expenses p)
          \<longrightarrow> expenseChange cashFlow = Some 0)
   \<and> (previousBurn cashFlow = 0 \<longrightarrow> burnChange cashFlow = Some 0)"
proof (intro conjI allI impI)
  show "revenueGrowth cashFlow \<noteq> None" by (rule revenueGrowth_defined)
  show "expenseChange cashFlow \<noteq> None" by (rule expenseChange_defined)
  show "burnChange cashFlow \<noteq> None" by (rule burnChange_defined)
next
  assume "previousMonth cashFlow = None"
  then show "revenueGrowth cashFlow = Some 0" "expenseChange cashFlow = Some 0"
    "burnChange cashFlow = Some 0"
    by (simp_all add: revenueGrowth_def expenseChange_def burnChange_def previousBurn_def)
next
  fix p assume "previousMonth cashFlow = Some p \<and> \<not> truthy (income p)"
  then show "revenueGrowth cashFlow = Some 0"
    by (simp add: revenueGrowth_def truthy_def split: option.splits)
next
  fix p assume "previousMonth cashFlow = Some p \<and> \<not> truthy (expenses p)"
  then show "expenseChange cashFlow = Some 0"
    by (simp add: expenseChange_def truthy_def split: option.splits)
next
  assume "previousBurn cashFlow = 0"
  then show "burnChange cashFlow = Some 0"
    by (simp add: burnChange_def)
qed

text \<open>
  A series of two months whose previous month has income 0 and no expenses: the three
  percentages are 0. A series whose previous burn is 20: the burn change is a number.
\<close>

theorem percentages_never_divide_by_zero_witness:
  "revenueGrowth [\<lparr> balance = 100, income = Some 0, expenses = None \<rparr>,
                  \<lparr> balance = 90, income = Some 10, expenses = Some 20 \<rparr>] = Some 0
   \<and> expenseChange [\<lparr> balance = 100, income = Some 0, expenses = None \<rparr>,
                    \<lparr> balance = 90, income = Some 10, expenses = Some 20 \<rparr>] = Some 0
   \<and> burnChange [\<lparr> balance = 100, income = Some 0, expenses = None \<rparr>,
                 \<lparr> balance = 90, income = Some 10, expenses = Some 20 \<rparr>] = Some 0
   \<and> burnChange [\<lparr> balance = 100, income = Some 5, expenses = Some 25 \<rparr>,
                 \<lparr> balance = 90, income = Some 10, expenses = Some 20 \<rparr>] \<noteq> None"
  using percentages_never_divide_by_zero
    [of "[\<lparr> balance = 100, income = Some 0, expenses = None \<rparr>,
          \<lparr> balance = 90, income = Some 10, expenses = Some 20 \<rparr>]"]
    percentages_never_divide_by_zero
    [of "[\<lparr> balance = 100, income = Some 5, expenses = Some 25 \<rparr>,
          \<lparr> balance = 90, income = Some 10, expenses = Some 20 \<rparr>]"]
  by (simp add: previousMonth_def previousBurn_def truthy_def or_zero_def)

subsection \<open>Sending a chat message\<close>

text \<open>
  C6. \<open>sendUserMessage\<close> appends exactly two entries to the chat history: the user's
  message, then the backend's response text, or the fixed fallback text when the request
  fails. In both cases \<open>isProcessingChat\<close> is false afterwards and exactly one request
  has been issued (no retry).
\<close>

theorem sendUserMessage_appends_two:
  assumes "w' = sendUserMessage backend token txt (state, issued)"
    and "req = \<lparr> message = txt, context_months = 12, authorization = ''Bearer '' @ token \<rparr>"
  shows "(\<forall>response. backend req = Inr response \<longrightarrow>
            chatHistory (fst w') = chatHistory state
              @ [\<lparr> msg_role = RoleUser, msg_text = txt \<rparr>,
                 \<lparr> msg_role = RoleAi, msg_text = response \<rparr>])
       \<and> (\<forall>err. backend req = Inl err \<longrightarrow>
            chatHistory (fst w') = chatHistory state
              @ [\<lparr> msg_role = RoleUser, msg_text = txt \<rparr>,
                 \<lparr> msg_role = RoleAi,
                   msg_text = ''Error connecting to the financial engine. Please try again.'' \<rparr>])
       \<and> length (chatHistory (fst w')) = length (chatHistory state) + 2
       \<and> isProcessingChat (fst w') = False
       \<and> snd w' = issued @ [req]"
  using assms
  by (cases "backend req")
     (simp_all add: sendUserMessage_def axios_post_def chat_fallback_def)

theorem sendUserMessage_appends_two_witness:
  "chatHistory (fst (sendUserMessage (\<lambda>r. Inr (''You asked: '' @ message r) :: unit + string)
                       ''tok'' ''runway?''
                       (\<lparr> chatHistory = [], monthlyReport = None, isProcessingChat = False,
                          isGeneratingReport = False \<rparr>, [])))
     = [\<lparr> msg_role = RoleUser, msg_text = ''runway?'' \<rparr>,
        \<lparr> msg_role = RoleAi, msg_text = ''You asked: runway?'' \<rparr>]
   \<and> chatHistory (fst (sendUserMessage (\<lambda>r. Inl () :: unit + string)
                       ''tok'' ''runway?''
                       (\<lparr> chatHistory = [], monthlyReport = None, isProcessingChat = False,
                          isGeneratingReport = False \<rparr>, [])))
     = [\<lparr> msg_role = RoleUser, msg_text = ''runway?'' \<rparr>,
        \<lparr> msg_role = RoleAi,
          msg_text = ''Error connecting to the financial engine. Please try again.'' \<rparr>]
   \<and> snd (sendUserMessage (\<lambda>r. Inl () :: unit + string)
                       ''tok'' ''runway?''
                       (\<lparr> chatHistory = [], monthlyReport = None, isProcessingChat = False,
                          isGeneratingReport = False \<rparr>, []))
     = [\<lparr> message = ''runway?'', context_months = 12, authorization = ''Bearer tok'' \<rparr>]"
  using sendUserMessage_appends_two
    [OF refl refl, of "\<lambda>r. Inr (''You asked: '' @ message r) :: unit + string" "''runway?''" "''tok''"
       "\<lparr> chatHistory = [], monthlyReport = None, isProcessingChat = False,
          isGeneratingReport = False \<rparr>" "[]"]
    sendUserMessage_appends_two
    [OF refl refl, of "\<lambda>r. Inl () :: unit + string" "''runway?''" "''tok''"
       "\<lparr> chatHistory = [], monthlyReport = None, isProcessingChat = False,
          isGeneratingReport = False \<rparr>" "[]"]
  by simp

subsection \<open>Submitting the login form\<close>

text \<open>
  C7. When the authentication call throws, the login page sets an inline error message
  (not null and not empty), performs no navigation and leaves the auth store as it was (\<open>loginUser\<close> is not
  applied). When it succeeds, \<open>loginUser\<close> is applied to the store and the page
  navigates to \<open>/dashboard\<close> if \<open>onboardingCompleted\<close> holds and to \<open>/onboarding\<close>
  otherwise.
\<close>

theorem LoginPage_onSubmit_outcomes:
  assumes "st' = LoginPage_onSubmit login loginUser data st"
  shows "(\<forall>error. login (login_email data) (login_password data) = Inl error \<longrightarrow>
            errorMessage st' \<noteq> None \<and> errorMessage st' \<noteq> Some []
            \<and> navigated st' = navigated st \<and> auth st' = auth st)
       \<and> (\<forall>user token. login (login_email data) (login_password data) = Inr (user, token) \<longrightarrow>
            auth st' = loginUser user token (auth st)
            \<and> navigated st' = navigated st
                @ [if onboardingCompleted user then ''/dashboard'' else ''/onboarding''])"
  using assms
  by (cases "login (login_email data) (login_password data)")
     (auto simp add: LoginPage_onSubmit_def Let_def split: thrown.splits)

text \<open>
  The auth store of the witness is the list of \<open>loginUser\<close> calls: it stays empty when
  the service throws and holds one call when it answers.
\<close>

theorem LoginPage_onSubmit_outcomes_witness:
  "errorMessage (LoginPage_onSubmit (\<lambda>e p. Inl (Error ''Incorrect email or password''))
       (\<lambda>u t calls. calls @ [(u, t)])
       \<lparr> login_email = ''a@b.co'', login_password = ''x'' \<rparr>
       \<lparr> isSubmitting = False, errorMessage = None, errors = [], navigated = [], auth = [],
         serviceCalls = [] \<rparr>) \<noteq> None
   \<and> navigated (LoginPage_onSubmit (\<lambda>e p. Inl (Error ''Incorrect email or password''))
       (\<lambda>u t calls. calls @ [(u, t)])
       \<lparr> login_email = ''a@b.co'', login_password = ''x'' \<rparr>
       \<lparr> isSubmitting = False, errorMessage = None, errors = [], navigated = [], auth = [],
         serviceCalls = [] \<rparr>) = []
   \<and> auth (LoginPage_onSubmit (\<lambda>e p. Inl (Error ''Incorrect email or password''))
       (\<lambda>u t calls. calls @ [(u, t)])
       \<lparr> login_email = ''a@b.co'', login_password = ''x'' \<rparr>
       \<lparr> isSubmitting = False, errorMessage = None, errors = [], navigated = [], auth = [],
         serviceCalls = [] \<rparr>) = []
   \<and> navigated (LoginPage_onSubmit
       (\<lambda>e p. Inr (\<lparr> user_id = ''1'', user_email = e, fullName = ''Jane'',
                        onboardingCompleted = True \<rparr>, ''tok''))
       (\<lambda>u t calls. calls @ [(u, t)])
       \<lparr> login_email = ''a@b.co'', login_password = ''x'' \<rparr>
       \<lparr> isSubmitting = False, errorMessage = None, errors = [], navigated = [], auth = [],
         serviceCalls = [] \<rparr>) = [''/dashboard'']
   \<and> auth (LoginPage_onSubmit
       (\<lambda>e p. Inr (\<lparr> user_id = ''1'', user_email = e, fullName = ''Jane'',
                        onboardingCompleted = True \<rparr>, ''tok''))
       (\<lambda>u t calls. calls @ [(u, t)])
       \<lparr> login_email = ''a@b.co'', login_password = ''x'' \<rparr>
       \<lparr> isSubmitting = False, errorMessage = None, errors = [], navigated = [], auth = [],
         serviceCalls = [] \<rparr>)
     = [(\<lparr> user_id = ''1'', user_email = ''a@b.co'', fullName = ''Jane'',
           onboardingCompleted = True \<rparr>, ''tok'')]"
  using LoginPage_onSubmit_outcomes
    [OF refl, of "\<lambda>e p. Inl (Error ''Incorrect email or password'')"
       "\<lparr> login_email = ''a@b.co'', login_password = ''x'' \<rparr>"
       "\<lambda>u t calls. calls @ [(u, t)]"
       "\<lparr> isSubmitting = False, errorMessage = None, errors = [], navigated = [],
          auth = [], serviceCalls = [] \<rparr>"]
    LoginPage_onSubmit_outcomes
    [OF refl, of "\<lambda>e p. Inr (\<lparr> user_id = ''1'', user_email = e, fullName = ''Jane'',
                        onboardingCompleted = True \<rparr>, ''tok'')"
       "\<lparr> login_email = ''a@b.co'', login_password = ''x'' \<rparr>"
       "\<lambda>u t calls. calls @ [(u, t)]"
       "\<lparr> isSubmitting = False, errorMessage = None, errors = [], navigated = [],
          auth = [], serviceCalls = [] \<rparr>"]
  by simp

subsection \<open>Submitting the registration form\<close>

lemma registerSchema_empty_iff:
  "registerSchema is_email data = []
   \<longleftrightarrow> 2 \<le> length (reg_fullName data) \<and> is_email (reg_email data)
       \<and> 8 \<le> length (reg_password data)"
  by (auto simp add: registerSchema_def)

lemma RegisterPage_onSubmit_calls:
  "serviceCalls (RegisterPage_onSubmit registerService loginUser data st)
     = serviceCalls st @ [[reg_fullName data, reg_email data, reg_password data]]"
  by (cases "registerService (reg_fullName data) (reg_email data) (reg_password data)")
     (auto simp add: RegisterPage_onSubmit_def Let_def split: thrown.splits)

text \<open>
  C10. Submitting the registration form calls the register service only when the input
  satisfies the schema: a full name of at least 2 characters, a well-formed email address
  and a password of at least 8 characters; then it is called once, with the three fields.
  Otherwise no call is made and each failing field carries its error message.
\<close>

theorem RegisterPage_submit_validates_first:
  assumes "st' = RegisterPage_submit is_email registerService loginUser data st"
  shows "(serviceCalls st' \<noteq> serviceCalls st \<longrightarrow>
            2 \<le> length (reg_fullName data) \<and> is_email (reg_email data)
            \<and> 8 \<le> length (reg_password data))
       \<and> (2 \<le> length (reg_fullName data) \<and> is_email (reg_email data)
            \<and> 8 \<le> length (reg_password data) \<longrightarrow>
            serviceCalls st' = serviceCalls st
              @ [[reg_fullName data, reg_email data, reg_password data]])
       \<and> (\<not> (2 \<le> length (reg_fullName data) \<and> is_email (reg_email data)
               \<and> 8 \<le> length (reg_password data)) \<longrightarrow>
            serviceCalls st' = serviceCalls st \<and> errors st' \<noteq> []
            \<and> navigated st' = navigated st \<and> auth st' = auth st)
       \<and> (length (reg_fullName data) < 2 \<longrightarrow>
            map_of (errors st') ''fullName'' = Some ''Name must be at least 2 characters'')
       \<and> (\<not> is_email (reg_email data) \<longrightarrow>
            map_of (errors st') ''email'' = Some ''Invalid email address'')
       \<and> (length (reg_password data) < 8 \<longrightarrow>
            map_of (errors st') ''password'' = Some ''Password must be at least 8 characters'')"
proof (cases "registerSchema is_email data = []")
  case True
  then have valid: "2 \<le> length (reg_fullName data)" "is_email (reg_email data)"
    "8 \<le> length (reg_password data)"
    by (simp_all add: registerSchema_empty_iff)
  from True assms have "st' = RegisterPage_onSubmit registerService loginUser data (st\<lparr> errors := [] \<rparr>)"
    by (simp add: RegisterPage_submit_def handleSubmit_def)
  then have "serviceCalls st' = serviceCalls st
      @ [[reg_fullName data, reg_email data, reg_password data]]"
    by (simp add: RegisterPage_onSubmit_calls)
  with valid show ?thesis by simp
next
  case False
  with assms have st': "st' = st\<lparr> errors := registerSchema is_email data \<rparr>"
    by (simp add: RegisterPage_submit_def handleSubmit_def)
  from False have invalid: "\<not> (2 \<le> length (reg_fullName data) \<and> is_email (reg_email data)
               \<and> 8 \<le> length (reg_password data))"
    by (simp add: registerSchema_empty_iff)
  have "map_of (registerSchema is_email data) ''fullName''
          = Some ''Name must be at least 2 characters''" if "length (reg_fullName data) < 2"
    using that by (simp add: registerSchema_def)
  moreover have "map_of (registerSchema is_email data) ''email''
          = Some ''Invalid email address''" if "\<not> is_email (reg_email data)"
    using that by (simp add: registerSchema_def)
  moreover have "map_of (registerSchema is_email data) ''password''
          = Some ''Password must be at least 8 characters''" if "length (reg_password data) < 8"
    using that by (simp add: registerSchema_def)
  ultimately show ?thesis
    using st' False invalid by auto
qed

text \<open>
  Two inputs, with "contains an at sign" standing for the email test: a valid one, for
  which the service is called once, and one with a short password, for which it is not.
\<close>

theorem RegisterPage_submit_validates_first_witness:
  "serviceCalls (RegisterPage_submit (\<lambda>s. CHR ''@'' \<in> set s)
       (\<lambda>n e p. Inl NonError) (\<lambda>u t a. a)
       \<lparr> reg_fullName = ''Jane'', reg_email = ''j@x.io'', reg_password = ''12345678'' \<rparr>
       \<lparr> isSubmitting = False, errorMessage = None, errors = [], navigated = [], auth = (),
         serviceCalls = [] \<rparr>) = [[''Jane'', ''j@x.io'', ''12345678'']]
   \<and> serviceCalls (RegisterPage_submit (\<lambda>s. CHR ''@'' \<in> set s)
       (\<lambda>n e p. Inl NonError) (\<lambda>u t a. a)
       \<lparr> reg_fullName = ''Jane'', reg_email = ''j@x.io'', reg_password = ''1234567'' \<rparr>
       \<lparr> isSubmitting = False, errorMessage = None, errors = [], navigated = [], auth = (),
         serviceCalls = [] \<rparr>) = []
   \<and> map_of (errors (RegisterPage_submit (\<lambda>s. CHR ''@'' \<in> set s)
       (\<lambda>n e p. Inl NonError) (\<lambda>u t a. a)
       \<lparr> reg_fullName = ''Jane'', reg_email = ''j@x.io'', reg_password = ''1234567'' \<rparr>
       \<lparr> isSubmitting = False, errorMessage = None, errors = [], navigated = [], auth = (),
         serviceCalls = [] \<rparr>)) ''password'' = Some ''Password must be at least 8 characters''"
  using RegisterPage_submit_validates_first
    [OF refl, of "\<lambda>s. CHR ''@'' \<in> set s" "\<lambda>n e p. Inl NonError" "\<lambda>u t a. a"
       "\<lparr> reg_fullName = ''Jane'', reg_email = ''j@x.io'', reg_password = ''12345678'' \<rparr>"
       "\<lparr> isSubmitting = False, errorMessage = None, errors = [], navigated = [], auth = (),
          serviceCalls = [] \<rparr>"]
    RegisterPage_submit_validates_first
    [OF refl, of "\<lambda>s. CHR ''@'' \<in> set s" "\<lambda>n e p. Inl NonError" "\<lambda>u t a. a"
       "\<lparr> reg_fullName = ''Jane'', reg_email = ''j@x.io'', reg_password = ''1234567'' \<rparr>"
       "\<lparr> isSubmitting = False, errorMessage = None, errors = [], navigated = [], auth = (),
          serviceCalls = [] \<rparr>"]
  by simp

subsection \<open>Paging through the investor directory\<close>

text \<open>
  C4. Every load of the directory issues one request to the list endpoint whose query
  parameters are the stage, the headquarters, the sort key, the limit 50 and the current
  skip. A fresh search (skip = 0) replaces the list with the returned page; a click on
  "Load More" advances skip by exactly 50 and the load that follows appends the returned
  page to the end of the list.
\<close>

theorem directory_paging:
  assumes "req = (\<lambda>k. (''/api/v1/ai/match/all'',
                     [(''stage'', stageFilter st), (''hq'', hqFilter st), (''sort_by'', sortBy st),
                      (''limit'', ''50''), (''skip'', nat_to_string k)]))"
  shows "snd (loadInvestors backend (st, issued)) = issued @ [req (skip st)]
       \<and> (\<forall>r. backend (req 0) = Response r \<and> ok r \<and> skip st = 0 \<longrightarrow>
            investors (fst (loadInvestors backend (st, issued))) = body_investors (json r))
       \<and> skip (clickLoadMore st) = skip st + 50
       \<and> snd (loadMore backend (st, issued)) = issued @ [req (skip st + 50)]
       \<and> (\<forall>r. backend (req (skip st + 50)) = Response r \<and> ok r \<longrightarrow>
            investors (fst (loadMore backend (st, issued)))
              = investors st @ body_investors (json r))"
  unfolding assms
  by (auto simp add: loadMore_def clickLoadMore_def LIMIT_def loadInvestors_def
        fetchFilteredInvestors_def Let_def split: fetched.splits)

text \<open>
  A backend whose page holds one investor named after the \<open>skip\<close> parameter of the
  request: the fresh search shows the page of skip 0, and "Load More" from there issues
  the request with skip 50 and appends its page.
\<close>

theorem directory_paging_witness:
  "investors (fst (loadInvestors
       (\<lambda>q. Response \<lparr> ok = True, status = 200,
               json = \<lparr> body_investors =
                          [\<lparr> investor_id = 1, name = the (map_of (snd q) ''skip''),
                             match_score = 0, website = [], hq = [], inv_type = [] \<rparr>],
                        body_total = 120 \<rparr> \<rparr>)
       (\<lparr> investors = [], loading = True, loadingMore = False, totalCount = 0,
          stageFilter = ''All'', hqFilter = ''All'', sortBy = ''name_asc'', skip = 0 \<rparr>, [])))
     = [\<lparr> investor_id = 1, name = ''0'', match_score = 0, website = [], hq = [],
          inv_type = [] \<rparr>]
   \<and> investors (fst (loadMore
       (\<lambda>q. Response \<lparr> ok = True, status = 200,
               json = \<lparr> body_investors =
                          [\<lparr> investor_id = 1, name = the (map_of (snd q) ''skip''),
                             match_score = 0, website = [], hq = [], inv_type = [] \<rparr>],
                        body_total = 120 \<rparr> \<rparr>)
       (\<lparr> investors = [], loading = True, loadingMore = False, totalCount = 0,
          stageFilter = ''All'', hqFilter = ''All'', sortBy = ''name_asc'', skip = 0 \<rparr>, [])))
     = [\<lparr> investor_id = 1, name = ''50'', match_score = 0, website = [], hq = [],
          inv_type = [] \<rparr>]
   \<and> snd (loadMore
       (\<lambda>q. Response \<lparr> ok = True, status = 200,
               json = \<lparr> body_investors =
                          [\<lparr> investor_id = 1, name = the (map_of (snd q) ''skip''),
                             match_score = 0, website = [], hq = [], inv_type = [] \<rparr>],
                        body_total = 120 \<rparr> \<rparr>)
       (\<lparr> investors = [], loading = True, loadingMore = False, totalCount = 0,
          stageFilter = ''All'', hqFilter = ''All'', sortBy = ''name_asc'', skip = 0 \<rparr>, []))
     = [(''/api/v1/ai/match/all'',
         [(''stage'', ''All''), (''hq'', ''All''), (''sort_by'', ''name_asc''),
          (''limit'', ''50''), (''skip'', ''50'')])]"
proof -
  have digits: "nat_to_string 0 = ''0''" "nat_to_string 50 = ''50''"
    by (simp_all add: nat_to_string.simps digit_char_def)
  show ?thesis
    using directory_paging
      [OF refl,
       of "\<lambda>q. Response \<lparr> ok = True, status = 200,
               json = \<lparr> body_investors =
                          [\<lparr> investor_id = 1, name = the (map_of (snd q) ''skip''),
                             match_score = 0, website = [], hq = [], inv_type = [] \<rparr>],
                        body_total = 120 \<rparr> \<rparr>"
          "\<lparr> investors = [], loading = True, loadingMore = False, totalCount = 0,
             stageFilter = ''All'', hqFilter = ''All'', sortBy = ''name_asc'', skip = 0 \<rparr>"
          "[]"]
    by (simp add: digits)
qed

end
